theory Spec2Isabelle
  imports Main "HOL-Library.AList"
begin

section \<open>Python and library primitives used by the controllers\<close>

text \<open>
  Errors are values. The S3 errors are the exception classes that
  \<^verbatim>\<open>controllers/obj.py\<close> raises or catches; \<open>BackendError\<close> stands for any other
  exception a collaborator raises, and \<open>TypeError\<close>, \<open>ValueError\<close> are Python's own.
\<close>

datatype error =
    NoSuchKey string
  | InvalidRange
  | InvalidArgument string string string
  | S3NotImplemented
  | BackendError string
  | TypeError
  | ValueError

definition startswith :: "string \<Rightarrow> string \<Rightarrow> bool" where
  "startswith s p = (take (length p) s = p)"

text \<open>Python's \<^verbatim>\<open>s[:-n]\<close>: for \<open>n = 0\<close> the slice is \<^verbatim>\<open>s[:0]\<close>, the empty string.\<close>

definition slice_to_minus :: "nat \<Rightarrow> string \<Rightarrow> string" where
  "slice_to_minus n s = (if n = 0 then [] else take (length s - n) s)"

subsection \<open>Header sets\<close>

text \<open>
  Modelled from the spec: the header set of a request or response is a mapping with
  case-insensitive keys (the classes that implement it are not part of the sources at
  hand). The table keeps the entries; every access compares names in lower case, which
  is also the form in which \<^verbatim>\<open>keys()\<close> hands out the names.
\<close>

type_synonym headers = "(string \<times> string) list"

definition lower_char :: "char \<Rightarrow> char" where
  "lower_char c =
     (if 65 \<le> (of_char c :: nat) \<and> (of_char c :: nat) \<le> 90
      then char_of ((of_char c :: nat) + 32) else c)"

definition hkey :: "string \<Rightarrow> string" where
  "hkey k = map lower_char k"

definition hget :: "headers \<Rightarrow> string \<Rightarrow> string option" where
  "hget h k = map_of (map (\<lambda>(a, v). (hkey a, v)) h) (hkey k)"

definition hcontains :: "headers \<Rightarrow> string \<Rightarrow> bool" where
  "hcontains h k = (hget h k \<noteq> None)"

definition hdel :: "headers \<Rightarrow> string \<Rightarrow> headers" where
  "hdel h k = filter (\<lambda>(a, v). hkey a \<noteq> hkey k) h"

definition hset :: "headers \<Rightarrow> string \<Rightarrow> string \<Rightarrow> headers" where
  "hset h k v = (hkey k, v) # hdel h k"

definition hkeys :: "headers \<Rightarrow> string list" where
  "hkeys h = remdups (map (\<lambda>(a, v). hkey a) h)"

subsection \<open>Requests, responses and the backend\<close>

record request =
  req_method :: string
  container_name :: string
  object_name :: string
  controller_name :: string
  params :: "(string \<times> string) list"
  req_headers :: headers

text \<open>
  A response body is a fixed buffer (\<open>body\<close>) or a finite, single-pass producer of
  chunks (\<open>app_iter\<close>); \<open>status\<close> is the integer status code.
\<close>

record response =
  status :: int
  headers :: headers
  body :: string
  app_iter :: "string list option"

definition HTTP_OK :: int where "HTTP_OK = 200"
definition HTTP_PARTIAL_CONTENT :: int where "HTTP_PARTIAL_CONTENT = 206"
definition HTTP_NO_CONTENT :: int where "HTTP_NO_CONTENT = 204"

text \<open>
  Assigning \<^verbatim>\<open>resp.app_iter = None\<close> drops the producer and the buffered body;
  assigning \<^verbatim>\<open>resp.body = value\<close> stores the buffer, drops the producer and sets
  the content length to the length of the buffer.
\<close>

fun str_nat :: "nat \<Rightarrow> string" where
  "str_nat n =
     (if n < 10 then [char_of (48 + n)]
      else str_nat (n div 10) @ [char_of (48 + n mod 10)])"

declare str_nat.simps [simp del]

definition str_int :: "int \<Rightarrow> string" where
  "str_int i = (if i < 0 then CHR ''-'' # str_nat (nat (- i)) else str_nat (nat i))"

definition set_app_iter_None :: "response \<Rightarrow> response" where
  "set_app_iter_None resp = resp\<lparr>body := [], app_iter := None\<rparr>"

definition set_body :: "response \<Rightarrow> string \<Rightarrow> response" where
  "set_body resp value =
     resp\<lparr>body := value, app_iter := None,
          headers := hset (headers resp) ''Content-Length'' (str_int (int (length value)))\<rparr>"

text \<open>
  \<open>S3Timestamp\<close>: the two renderings of the clock reading that \<open>PUT\<close> uses. The
  reading itself is an input of the handler.
\<close>

record s3timestamp =
  internal :: string
  s3xmlformat :: string

record object_info =
  sysmeta :: "(string \<times> string) list option"

text \<open>
  The collaborators of the controller (the methods of the request and response classes
  that reach the backend, and two constants of \<^verbatim>\<open>swift3.utils\<close>) are parameters of the
  model. A backend call reads the request as it stands at the call, may fail with an
  error and may change the backend's state \<open>'s\<close>. Since \<open>'s\<close> is arbitrary, a handler
  that returns the state it was given has made no backend call that could be observed.
\<close>

type_synonym query = "(string \<times> string) list option"

record 's backend =
  VERSIONING_SUFFIX :: string
  versioned_object_name :: "string \<Rightarrow> string \<Rightarrow> string"
  get_response :: "request \<Rightarrow> query \<Rightarrow> 's \<Rightarrow> (error + response) \<times> 's"
  get_object_info :: "request \<Rightarrow> string \<Rightarrow> 's \<Rightarrow> (error + object_info) \<times> 's"
  check_copy_source :: "request \<Rightarrow> 's \<Rightarrow> (error + unit) \<times> 's"
  gen_multipart_manifest_delete_query :: "request \<Rightarrow> 's \<Rightarrow> (error + query) \<times> 's"
  append_copy_resp_body :: "response \<Rightarrow> string \<Rightarrow> string \<Rightarrow> response"

section \<open>ObjectController.PUT\<close>

text \<open>
  The loop of \<open>PUT\<close> over \<^verbatim>\<open>list(resp.headers.keys())\<close> that deletes the user
  metadata from a copy response.
\<close>

definition delete_object_metadata :: "response \<Rightarrow> response" where
  "delete_object_metadata resp =
     fold (\<lambda>key r. if startswith key ''x-amz-meta-''
                    then r\<lparr>headers := hdel (headers r) key\<rparr> else r)
          (hkeys (headers resp)) resp"

definition PUT ::
  "'s backend \<Rightarrow> s3timestamp \<Rightarrow> request \<Rightarrow> 's \<Rightarrow> (error + response) \<times> request \<times> 's" where
  "PUT app req_timestamp req0 s =
     (let req = req0\<lparr>req_headers :=
                  hset (req_headers req0) ''X-Timestamp'' (internal req_timestamp)\<rparr>
      in if list_all (\<lambda>h. hcontains (req_headers req) h)
              [''X-Amz-Copy-Source'', ''X-Amz-Copy-Source-Range'']
         then (Inl (InvalidArgument ''x-amz-copy-source-range''
                      (the (hget (req_headers req) ''X-Amz-Copy-Source-Range''))
                      ''Illegal copy header''), req, s)
         else
           (case check_copy_source app req s of
              (Inl e, s1) \<Rightarrow> (Inl e, req, s1)
            | (Inr _, s1) \<Rightarrow>
                (case get_response app req None s1 of
                   (Inl e, s2) \<Rightarrow> (Inl e, req, s2)
                 | (Inr resp, s2) \<Rightarrow>
                     (let resp1 =
                            (if hcontains (req_headers req) ''X-Amz-Copy-Source''
                             then delete_object_metadata
                                    (append_copy_resp_body app resp (controller_name req)
                                       (s3xmlformat req_timestamp))
                             else resp)
                      in (Inr (resp1\<lparr>status := HTTP_OK\<rparr>), req, s2)))))"

section \<open>ObjectController.GETorHEAD, HEAD, GET and POST\<close>

text \<open>
  Lines 88 to 100 of \<^verbatim>\<open>controllers/obj.py\<close>: what \<open>GETorHEAD\<close> does with the response
  once it has one. \<open>object_name0\<close> is the object name saved on entry.
\<close>

definition response_overrides :: "string list" where
  "response_overrides =
     [''content-type'', ''content-language'', ''expires'',
      ''cache-control'', ''content-disposition'', ''content-encoding'']"

definition shape_response :: "request \<Rightarrow> string \<Rightarrow> response \<Rightarrow> error + response" where
  "shape_response req object_name0 resp0 =
     (let resp = (if req_method req = ''HEAD'' then set_app_iter_None resp0 else resp0)
      in if hcontains (headers resp) ''x-amz-meta-deleted''
         then Inl (NoSuchKey object_name0)
         else Inr (fold (\<lambda>key r.
                       case map_of (params req) (''response-'' @ key) of
                         Some v \<Rightarrow> r\<lparr>headers := hset (headers r) key v\<rparr>
                       | None \<Rightarrow> r)
                     response_overrides resp))"

text \<open>
  \<^verbatim>\<open>if version_id and version_id != 'null'\<close>: an absent or empty parameter is falsy.
\<close>

definition wants_version :: "string option \<Rightarrow> bool" where
  "wants_version version_id =
     (case version_id of None \<Rightarrow> False | Some v \<Rightarrow> v \<noteq> [] \<and> v \<noteq> ''null'')"

definition GETorHEAD ::
  "'s backend \<Rightarrow> request \<Rightarrow> 's \<Rightarrow> (error + response) \<times> request \<times> 's" where
  "GETorHEAD app req0 s =
     (let object_name0 = object_name req0;
          version_id = map_of (params req0) ''versionId'';
          req = (if wants_version version_id
                 then req0\<lparr>container_name := container_name req0 @ VERSIONING_SUFFIX app,
                           object_name := versioned_object_name app (object_name req0)
                                            (the version_id),
                           params := AList.delete ''versionId'' (params req0)\<rparr>
                 else req0)
      in case get_response app req None s of
           (Inr resp, s1) \<Rightarrow> (shape_response req object_name0 resp, req, s1)
         | (Inl (NoSuchKey k), s1) \<Rightarrow>
             if wants_version version_id
             then
               (let req2 = req\<lparr>container_name :=
                                  slice_to_minus (length (VERSIONING_SUFFIX app))
                                    (container_name req),
                                object_name := object_name0\<rparr>
                in case get_object_info app req2 object_name0 s1 of
                     (Inl e, s2) \<Rightarrow> (Inl e, req2, s2)
                   | (Inr info, s2) \<Rightarrow>
                       if (case sysmeta info of None \<Rightarrow> None
                           | Some m \<Rightarrow> map_of m ''version-id'') = version_id
                       then (case get_response app req2 None s2 of
                               (Inl e, s3) \<Rightarrow> (Inl e, req2, s3)
                             | (Inr resp, s3) \<Rightarrow>
                                 (shape_response req2 object_name0 resp, req2, s3))
                       else (Inl (NoSuchKey k), req2, s2))
             else (Inl (NoSuchKey k), req, s1)
         | (Inl e, s1) \<Rightarrow> (Inl e, req, s1))"

text \<open>
  The range parser of the web framework is a parameter: \<open>Range_of\<close> is the constructor
  \<^verbatim>\<open>Range(req_range)\<close> (\<open>None\<close> when it raises \<^verbatim>\<open>ValueError\<close>), \<open>ranges_for_length\<close>
  its method (which may return \<^verbatim>\<open>None\<close>), and \<open>long\<close> is Python's conversion of a
  string (\<open>None\<close> when it raises \<^verbatim>\<open>ValueError\<close>).
\<close>

record 'r swob =
  long :: "string \<Rightarrow> int option"
  Range_of :: "string \<Rightarrow> 'r option"
  ranges_for_length :: "'r \<Rightarrow> int \<Rightarrow> (int \<times> int) list option"

text \<open>
  Modelled from the spec: \<^verbatim>\<open>content_range_header_value\<close> is imported from the web
  framework; the spec's example (\<^verbatim>\<open>bytes=0-9\<close> of 100 gives \<^verbatim>\<open>bytes 0-9/100\<close>) fixes its
  format, with the end of the half-open interval turned into the last byte.
\<close>

definition content_range_header_value :: "int \<Rightarrow> int \<Rightarrow> int \<Rightarrow> string" where
  "content_range_header_value start stop size_total =
     ''bytes '' @ str_int start @ ''-'' @ str_int (stop - 1) @ ''/'' @ str_int size_total"

definition gen_head_range_resp :: "'r swob \<Rightarrow> string \<Rightarrow> response \<Rightarrow> error + response" where
  "gen_head_range_resp lib req_range resp =
     (case hget (headers resp) ''Content-Length'' of
        None \<Rightarrow> Inl TypeError
      | Some cl \<Rightarrow>
          (case long lib cl of
             None \<Rightarrow> Inl ValueError
           | Some len \<Rightarrow>
               (case Range_of lib req_range of
                  None \<Rightarrow> Inr resp
                | Some content_range \<Rightarrow>
                    (case ranges_for_length lib content_range len of
                       None \<Rightarrow> Inr resp
                     | Some [] \<Rightarrow> Inl InvalidRange
                     | Some [(start, stop)] \<Rightarrow>
                         Inr (resp\<lparr>headers :=
                                     hset (hset (headers resp) ''Content-Range''
                                             (content_range_header_value start stop len))
                                       ''Content-Length'' (str_int (stop - start)),
                                   status := HTTP_PARTIAL_CONTENT\<rparr>)
                     | Some _ \<Rightarrow> Inr resp))))"

definition HEAD ::
  "'r swob \<Rightarrow> 's backend \<Rightarrow> request \<Rightarrow> 's \<Rightarrow> (error + response) \<times> request \<times> 's" where
  "HEAD lib app req0 s =
     (case GETorHEAD app req0 s of
        (Inl e, req, s1) \<Rightarrow> (Inl e, req, s1)
      | (Inr resp, req, s1) \<Rightarrow>
          if hcontains (req_headers req) ''range''
          then (gen_head_range_resp lib (the (hget (req_headers req) ''range'')) resp, req, s1)
          else (Inr resp, req, s1))"


definition POST :: "'s backend \<Rightarrow> request \<Rightarrow> 's \<Rightarrow> (error + response) \<times> request \<times> 's" where
  "POST app req s = (Inl S3NotImplemented, req, s)"

section \<open>ObjectController.DELETE\<close>

text \<open>
  The producer of a response is single-pass: a chunk that has been read is gone from
  it. The producer is the backend's, not the handler's: what the handler has read from
  it stays read when the handler replaces the body of the response. The state of a
  producer is the list of the chunks it has not handed out yet.

  \<open>drain\<close> is the loop \<^verbatim>\<open>for chunk in resp.app_iter: pass\<close>. It returns the chunks it
  has read, in the order of reading, and the state in which it leaves the producer.
\<close>

fun drain :: "string list \<Rightarrow> string list \<times> string list" where
  "drain [] = ([], [])"
| "drain (chunk # rest) = (case drain rest of (seen, left) \<Rightarrow> (chunk # seen, left))"

text \<open>
  \<^verbatim>\<open>if query\<close>: \<^verbatim>\<open>None\<close> and the empty dictionary are falsy. Assigning \<^verbatim>\<open>None\<close> to
  the \<^verbatim>\<open>Content-Type\<close> of the request removes the header. Iterating over a response
  that has no producer raises \<^verbatim>\<open>TypeError\<close>.

  Beside the result, the request and the backend state, \<open>DELETE\<close> returns what it did
  to the producer of the backend's response: the chunks it has read from it and the
  chunks it has left in it (both empty where there is no producer).
\<close>

definition truthy_query :: "query \<Rightarrow> bool" where
  "truthy_query q = (case q of None \<Rightarrow> False | Some kvs \<Rightarrow> kvs \<noteq> [])"

definition DELETE ::
  "'s backend \<Rightarrow> request \<Rightarrow> 's
   \<Rightarrow> (error + response) \<times> request \<times> 's \<times> (string list \<times> string list)" where
  "DELETE app req0 s =
     (case gen_multipart_manifest_delete_query app req0 s of
        (Inl e, s1) \<Rightarrow> (Inl e, req0, s1, ([], []))
      | (Inr query, s1) \<Rightarrow>
          (let req = req0\<lparr>req_headers := hdel (req_headers req0) ''Content-Type''\<rparr>
           in case get_response app req query s1 of
                (Inl e, s2) \<Rightarrow> (Inl e, req, s2, ([], []))
              | (Inr resp, s2) \<Rightarrow>
                  if truthy_query query \<and> status resp = HTTP_OK
                  then (case app_iter resp of
                          None \<Rightarrow> (Inl TypeError, req, s2, ([], []))
                        | Some chunks \<Rightarrow>
                            (case drain chunks of
                               (seen, left) \<Rightarrow>
                                 (Inr (set_body
                                         (resp\<lparr>app_iter := Some left,
                                               status := HTTP_NO_CONTENT\<rparr>) []),
                                  req, s2, (seen, left))))
                  else (Inr resp, req, s2,
                        ([], case app_iter resp of None \<Rightarrow> [] | Some chunks \<Rightarrow> chunks))))"

section \<open>swift3/etree.py\<close>

definition XMLNS_S3 :: string where
  "XMLNS_S3 = ''http://s3.amazonaws.com/doc/2006-03-01/''"

definition URLENCODE_BLACKLIST :: "string list" where
  "URLENCODE_BLACKLIST =
     [''LastModified'', ''ID'', ''DisplayName'', ''Initiated'',
      ''ContinuationToken'', ''NextContinuationToken'', ''ETag'']"

text \<open>
  A node of an element tree. The tag of an element is a string, in which the XML
  library writes a namespace in front of the local name, between braces. The tag of a
  comment or of another content-only node is not a string (\<open>NonElement\<close>). \<open>nsdecl\<close> holds
  the namespace declarations made on the node itself, the default namespace under the
  key \<open>None\<close>.
\<close>

datatype tag = Tag string | NonElement

datatype elem =
  Elem (tag: tag) (attrib: "(string \<times> string) list")
       (nsdecl: "(string option \<times> string) list") (text_of: "string option")
       (children: "elem list")

definition remove_ns :: "string \<Rightarrow> string \<Rightarrow> string" where
  "remove_ns tg ns =
     (if startswith tg (''{'' @ ns @ ''}'') then drop (length (''{'' @ ns @ ''}'')) tg else tg)"

text \<open>
  \<^verbatim>\<open>elem.nsmap\<close> is the map of the namespaces in scope at the element: the declarations
  of its ancestors, overridden by its own. \<open>inherited\<close> is the ancestors' part; it is
  empty at the root, where \<open>fromstring\<close> starts.
\<close>

fun cleanup_namespaces_in :: "(string option \<rightharpoonup> string) \<Rightarrow> elem \<Rightarrow> elem" where
  "cleanup_namespaces_in inherited (Elem NonElement at ns tx cs) = Elem NonElement at ns tx cs"
| "cleanup_namespaces_in inherited (Elem (Tag tg) at ns tx cs) =
     (let nsmap = inherited ++ map_of ns;
          tg1 = remove_ns tg XMLNS_S3;
          tg2 = (case nsmap None of Some dflt \<Rightarrow> remove_ns tg1 dflt | None \<Rightarrow> tg1)
      in Elem (Tag tg2) at ns tx (map (cleanup_namespaces_in nsmap) cs))"

definition cleanup_namespaces :: "elem \<Rightarrow> elem" where
  "cleanup_namespaces e = cleanup_namespaces_in Map.empty e"

text \<open>
  \<open>fromstring\<close>. The parser of the XML library is the parameter \<open>lxml_fromstring\<close>
  (\<open>None\<close> when it raises its syntax error); the validation against the schema of a
  root tag is the parameter \<open>assert_valid\<close>, which returns the error it ends in, if any.
\<close>

datatype xml_error = XMLSyntaxError | DocumentInvalid | IOError

definition fromstring ::
  "(string \<Rightarrow> elem option) \<Rightarrow> (string \<Rightarrow> elem \<Rightarrow> xml_error option)
   \<Rightarrow> string \<Rightarrow> string option \<Rightarrow> xml_error + elem" where
  "fromstring lxml_fromstring assert_valid text root_tag =
     (case lxml_fromstring text of
        None \<Rightarrow> Inl XMLSyntaxError
      | Some parsed \<Rightarrow>
          (let elem = cleanup_namespaces parsed
           in case root_tag of
                None \<Rightarrow> Inr elem
              | Some rt \<Rightarrow>
                  (case assert_valid rt elem of
                     Some e \<Rightarrow> Inl e
                   | None \<Rightarrow> Inr elem)))"

text \<open>
  \<^verbatim>\<open>quote\<close> of Python 2's \<^verbatim>\<open>urllib\<close> with its default \<^verbatim>\<open>safe='/'\<close>: letters, digits
  and \<^verbatim>\<open>_.-/\<close> stay, every other byte becomes \<^verbatim>\<open>%XX\<close> in upper-case hexadecimal.
\<close>

definition always_safe :: string where
  "always_safe =
     ''ABCDEFGHIJKLMNOPQRSTUVWXYZabcdefghijklmnopqrstuvwxyz0123456789_.-''"

definition hex_digit :: "nat \<Rightarrow> char" where
  "hex_digit n = (if n < 10 then char_of (48 + n) else char_of (55 + n))"

definition quote_char :: "char \<Rightarrow> string" where
  "quote_char c =
     (if c \<in> set (always_safe @ ''/'') then [c]
      else [CHR ''%'', hex_digit ((of_char c :: nat) div 16), hex_digit ((of_char c :: nat) mod 16)])"

definition quote :: "string \<Rightarrow> string" where
  "quote s = concat (map quote_char s)"

text \<open>\<^verbatim>\<open>e.get(key)\<close>: a content-only node has no attributes to look up.\<close>

definition elem_get :: "tag \<Rightarrow> (string \<times> string) list \<Rightarrow> string \<Rightarrow> string option" where
  "elem_get tg at k = (case tg of NonElement \<Rightarrow> None | Tag _ \<Rightarrow> map_of at k)"

text \<open>
  The body of the loop \<^verbatim>\<open>for e in tree.iter()\<close> of \<open>tostring\<close> at one node: it returns
  the attributes and the text the node has afterwards.
\<close>

definition urlencode_node ::
  "tag \<Rightarrow> (string \<times> string) list \<Rightarrow> string option \<Rightarrow> (string \<times> string) list \<times> string option" where
  "urlencode_node tg at tx =
     (if tg \<notin> Tag ` set URLENCODE_BLACKLIST
      then (case tx of
              None \<Rightarrow> (at, tx)
            | Some t \<Rightarrow>
                if elem_get tg at ''urlencoded'' = Some ''True''
                then (AList.delete ''urlencoded'' at, tx)
                else (at, Some (quote t)))
      else (at, tx))"

fun urlencode_tree :: "elem \<Rightarrow> elem" where
  "urlencode_tree (Elem tg at ns tx cs) =
     (case urlencode_node tg at tx of
        (at1, tx1) \<Rightarrow> Elem tg at1 ns tx1 (map urlencode_tree cs))"

text \<open>\<^verbatim>\<open>tree.iter()\<close>: the nodes of the tree in document order.\<close>

fun iter :: "elem \<Rightarrow> elem list" where
  "iter (Elem tg at ns tx cs) = Elem tg at ns tx cs # concat (map iter cs)"

text \<open>
  \<open>tostring_tree\<close> is the tree that \<open>tostring\<close> hands to the serializer of the XML
  library, which is the parameter \<open>lxml_tostring\<close> of \<open>tostring\<close>. Building the new root
  from a node whose tag is not a string raises \<^verbatim>\<open>TypeError\<close>.
\<close>

definition tostring_tree :: "elem \<Rightarrow> string option \<Rightarrow> bool \<Rightarrow> error + elem" where
  "tostring_tree tree encoding_type use_s3ns =
     (case (if use_s3ns
            then (case tree of
                    Elem (Tag tg) at ns tx cs \<Rightarrow>
                      Inr (Elem (Tag tg) at (AList.update None XMLNS_S3 ns) tx cs)
                  | Elem NonElement at ns tx cs \<Rightarrow> Inl TypeError)
            else Inr tree) of
        Inl e \<Rightarrow> Inl e
      | Inr tree1 \<Rightarrow>
          Inr (if encoding_type = Some ''url'' then urlencode_tree tree1 else tree1))"

definition tostring ::
  "(elem \<Rightarrow> string) \<Rightarrow> elem \<Rightarrow> string option \<Rightarrow> bool \<Rightarrow> error + string" where
  "tostring lxml_tostring tree encoding_type use_s3ns =
     (case tostring_tree tree encoding_type use_s3ns of
        Inl e \<Rightarrow> Inl e
      | Inr tree1 \<Rightarrow> Inr (lxml_tostring tree1))"

subsection \<open>Tags with and without a namespace\<close>

definition namespaced :: "string \<Rightarrow> bool" where
  "namespaced tg = startswith tg ''{''"

fun no_namespaced_tags :: "elem \<Rightarrow> bool" where
  "no_namespaced_tags (Elem NonElement at ns tx cs) = True"
| "no_namespaced_tags (Elem (Tag tg) at ns tx cs) =
     (\<not> namespaced tg \<and> list_all no_namespaced_tags cs)"

text \<open>
  \<open>tag_in ns tg\<close>: the tag is a local name qualified by the namespace \<open>ns\<close>.
  \<open>known_namespaces inherited e\<close>: every element of the tree has a tag without a
  namespace, or in the S3 namespace, or in the default namespace in scope at the
  element (a name that has no closing brace in it).
\<close>

definition tag_in :: "string \<Rightarrow> string \<Rightarrow> bool" where
  "tag_in ns tg =
     (startswith tg (''{'' @ ns @ ''}'') \<and> \<not> namespaced (drop (length (''{'' @ ns @ ''}'')) tg))"

fun known_namespaces :: "(string option \<rightharpoonup> string) \<Rightarrow> elem \<Rightarrow> bool" where
  "known_namespaces inherited (Elem NonElement at ns tx cs) = True"
| "known_namespaces inherited (Elem (Tag tg) at ns tx cs) =
     ((\<not> namespaced tg \<or> tag_in XMLNS_S3 tg \<or>
       (case (inherited ++ map_of ns) None of
          Some dflt \<Rightarrow> CHR ''}'' \<notin> set dflt \<and> tag_in dflt tg
        | None \<Rightarrow> False)) \<and>
      list_all (known_namespaces (inherited ++ map_of ns)) cs)"

text \<open>
  The serialized form of a tree carries the namespace declarations of its nodes, among
  them the \<^verbatim>\<open>xmlns="http://s3.amazonaws.com/doc/2006-03-01/"\<close> that \<open>tostring\<close> puts on
  the root. By the rules of XML namespaces an element written without a prefix belongs
  to the default namespace in scope, and the parser writes the namespace of an element
  in front of its local name. \<open>as_parsed inherited e\<close> is the tree that parsing the
  serialized form of \<open>e\<close> gives: an element whose tag has no namespace gets the default
  namespace in scope, where there is one; everything else is as it was.
\<close>

fun as_parsed :: "(string option \<rightharpoonup> string) \<Rightarrow> elem \<Rightarrow> elem" where
  "as_parsed inherited (Elem NonElement at ns tx cs) = Elem NonElement at ns tx cs"
| "as_parsed inherited (Elem (Tag tg) at ns tx cs) =
     (let nsmap = inherited ++ map_of ns;
          tg1 = (if namespaced tg then tg
                 else case nsmap None of
                        Some dflt \<Rightarrow> ''{'' @ dflt @ ''}'' @ tg
                      | None \<Rightarrow> tg)
      in Elem (Tag tg1) at ns tx (map (as_parsed nsmap) cs))"

text \<open>
  \<open>known_tags inherited e\<close>, for a tree that is about to be serialized: every element
  has a tag without a namespace, or in the S3 namespace, or in the default namespace in
  scope at the element; and no default namespace has a closing brace in its name.
\<close>

fun known_tags :: "(string option \<rightharpoonup> string) \<Rightarrow> elem \<Rightarrow> bool" where
  "known_tags inherited (Elem NonElement at ns tx cs) = True"
| "known_tags inherited (Elem (Tag tg) at ns tx cs) =
     ((case (inherited ++ map_of ns) None of
         Some dflt \<Rightarrow>
           CHR ''}'' \<notin> set dflt \<and>
           (\<not> namespaced tg \<or> tag_in XMLNS_S3 tg \<or> tag_in dflt tg)
       | None \<Rightarrow> \<not> namespaced tg \<or> tag_in XMLNS_S3 tg) \<and>
      list_all (known_tags (inherited ++ map_of ns)) cs)"

text \<open>
  \<open>canonical_node e e'\<close> relates a node of the parsed tree to the node that stands in
  its place after canonicalization: a node that is not an element is the same node; an
  element is still an element, with the same attributes, declarations and text.
\<close>

definition canonical_node :: "elem \<Rightarrow> elem \<Rightarrow> bool" where
  "canonical_node e e' =
     ((tag e = NonElement \<longrightarrow> e' = e) \<and>
      (tag e \<noteq> NonElement \<longrightarrow> tag e' \<noteq> NonElement) \<and>
      attrib e' = attrib e \<and> nsdecl e' = nsdecl e \<and> text_of e' = text_of e)"

subsection \<open>What url encoding does to a node\<close>

text \<open>
  \<open>url_encoded_node e e'\<close> relates a node \<open>e\<close> to the node \<open>e'\<close> that is serialized in
  its place: the tag is the same; under a tag of the exemption list the text is the
  same; under any other tag a text is replaced by its percent-encoding, unless the node
  carries the marker \<^verbatim>\<open>urlencoded="True"\<close>, in which case the text stays and the marker
  is gone; a node without text stays without text.
\<close>

definition url_encoded_node :: "elem \<Rightarrow> elem \<Rightarrow> bool" where
  "url_encoded_node e e' =
     (tag e' = tag e \<and>
      (tag e \<in> Tag ` set URLENCODE_BLACKLIST \<longrightarrow> text_of e' = text_of e) \<and>
      (tag e \<notin> Tag ` set URLENCODE_BLACKLIST \<longrightarrow>
         (case text_of e of
            None \<Rightarrow> text_of e' = None
          | Some t \<Rightarrow>
              if elem_get (tag e) (attrib e) ''urlencoded'' = Some ''True''
              then text_of e' = Some t \<and> ''urlencoded'' \<notin> fst ` set (attrib e')
              else text_of e' = Some (quote t))))"

section \<open>A sample backend and sample documents\<close>

text \<open>
  A backend that counts the calls it receives in its state. It keeps one object, whose
  stored version is \<open>xyz\<close>, and no older versions: every lookup in a versioning container
  fails. The object named \<open>gone\<close> carries the deletion marker, the response for the
  object named \<open>nolen\<close> has no content length. A request with a bulk-delete query is
  answered by a streamed report.
\<close>

definition sample_response :: response where
  "sample_response =
     \<lparr>status = 201,
      headers = [(''Content-Length'', ''100''), (''x-amz-meta-color'', ''red''),
                 (''x-amz-meta-Size'', ''big''), (''ETag'', ''abc'')],
      body = [], app_iter = Some [''data'']\<rparr>"

definition bulk_delete_report :: response where
  "bulk_delete_report =
     \<lparr>status = 200, headers = [(''Content-Type'', ''text/plain'')],
      body = [], app_iter = Some [''Number Deleted: 2'', ''Errors:'']\<rparr>"

definition counting_backend :: "nat backend" where
  "counting_backend =
     \<lparr>VERSIONING_SUFFIX = ''+versioning'',
      versioned_object_name = (\<lambda>name v. name @ ''/'' @ v),
      get_response = (\<lambda>req q n.
        (if q \<noteq> None then Inr bulk_delete_report
         else if startswith (rev (container_name req)) (rev ''+versioning'')
         then Inl (NoSuchKey (object_name req))
         else if object_name req = ''gone''
         then Inr (sample_response\<lparr>headers := [(''x-amz-meta-deleted'', ''true'')]\<rparr>)
         else if object_name req = ''nolen''
         then Inr (sample_response\<lparr>headers := [(''ETag'', ''abc'')]\<rparr>)
         else Inr sample_response, Suc n)),
      get_object_info = (\<lambda>req name n.
        (Inr \<lparr>sysmeta = Some [(''version-id'', ''xyz'')]\<rparr>, Suc n)),
      check_copy_source = (\<lambda>req n. (Inr (), Suc n)),
      gen_multipart_manifest_delete_query = (\<lambda>req n.
        (Inr (Some [(''multipart-manifest'', ''delete'')]), Suc n)),
      append_copy_resp_body = (\<lambda>resp name t. set_body resp t)\<rparr>"

definition sample_request :: request where
  "sample_request =
     \<lparr>req_method = ''GET'', container_name = ''bucket'', object_name = ''key'',
      controller_name = ''Object'', params = [], req_headers = []\<rparr>"

definition sample_timestamp :: s3timestamp where
  "sample_timestamp =
     \<lparr>internal = ''1400000000.00000'', s3xmlformat = ''2014-05-13T16:53:20.000Z''\<rparr>"

definition copy_range_request :: request where
  "copy_range_request =
     sample_request\<lparr>req_method := ''PUT'',
       req_headers := [(''x-amz-copy-source'', ''/bucket/src''),
                       (''x-amz-copy-source-range'', ''bytes=0-9'')]\<rparr>"

definition copy_request :: request where
  "copy_request =
     sample_request\<lparr>req_method := ''PUT'',
       req_headers := [(''X-Amz-Copy-Source'', ''/bucket/src'')]\<rparr>"

text \<open>
  A range library that knows three range specifications and the content length 100.
\<close>

definition sample_swob :: "string swob" where
  "sample_swob =
     \<lparr>long = (\<lambda>c. if c = ''100'' then Some 100 else None),
      Range_of = (\<lambda>r. if startswith r ''bytes='' then Some (drop 6 r) else None),
      ranges_for_length = (\<lambda>spec len.
        if spec = ''0-9'' then Some [(0, 10)]
        else if spec = ''0-9,20-29'' then Some [(0, 10), (20, 30)]
        else if spec = ''200-'' then Some []
        else None)\<rparr>"

definition head_request :: "string \<Rightarrow> request" where
  "head_request r = sample_request\<lparr>req_method := ''HEAD'', req_headers := [(''Range'', r)]\<rparr>"


definition nolen_head_request :: request where
  "nolen_head_request = (head_request ''garbage'')\<lparr>object_name := ''nolen''\<rparr>"

text \<open>
  A listing with a key that needs encoding, an ETag that would need it, and a prefix
  that was encoded when it was assigned; and the tree that is serialized for it.
\<close>

definition sample_listing :: elem where
  "sample_listing =
     Elem (Tag ''ListBucketResult'') [] [] None
       [Elem (Tag ''Prefix'') [(''urlencoded'', ''True'')] [] (Some ''a%01'') [],
        Elem (Tag ''Contents'') [] [] None
          [Elem (Tag ''Key'') [] [] (Some ''a b'') [],
           Elem (Tag ''ETag'') [] [] (Some ''d41d 8cd9'') []]]"

definition encoded_listing :: elem where
  "encoded_listing =
     Elem (Tag ''ListBucketResult'') [] [(None, XMLNS_S3)] None
       [Elem (Tag ''Prefix'') [] [] (Some ''a%01'') [],
        Elem (Tag ''Contents'') [] [] None
          [Elem (Tag ''Key'') [] [] (Some ''a%20b'') [],
           Elem (Tag ''ETag'') [] [] (Some ''d41d 8cd9'') []]]"

text \<open>
  Two documents as the parser returns them. In the first every element is in the S3
  namespace, declared as the default namespace on the root, and there is a comment. In
  the second one element is in a namespace of its own, declared with a prefix.
\<close>

definition parsed_listing :: elem where
  "parsed_listing =
     Elem (Tag ''{http://s3.amazonaws.com/doc/2006-03-01/}ListBucketResult'') []
       [(None, XMLNS_S3)] None
       [Elem NonElement [] [] (Some ''generated'') [],
        Elem (Tag ''{http://s3.amazonaws.com/doc/2006-03-01/}Name'') [] [] (Some ''bucket'') []]"

definition parsed_foreign :: elem where
  "parsed_foreign =
     Elem (Tag ''{http://s3.amazonaws.com/doc/2006-03-01/}ListBucketResult'') []
       [(None, XMLNS_S3)] None
       [Elem (Tag ''{urn:example}Note'') [] [(Some ''ex'', ''urn:example'')] (Some ''n'') []]"

text \<open>
  A backend like the first one, except that it answers every request with status 202
  and a streamed report.
\<close>

definition accepted_report :: response where
  "accepted_report =
     \<lparr>status = 202, headers = [(''Content-Type'', ''text/plain'')],
      body = [], app_iter = Some [''Number Deleted: 2'', ''Errors:'']\<rparr>"

definition accepting_backend :: "nat backend" where
  "accepting_backend =
     counting_backend\<lparr>get_response := (\<lambda>req q n. (Inr accepted_report, Suc n))\<rparr>"


text \<open>
  Two trees as the handlers build them, with tags that have no namespace: a listing
  with a comment in it, and a listing with an element in a namespace of its own,
  declared with a prefix. Then the first tree as \<open>tostring\<close> serializes it, as the parser
  returns it, and as \<open>fromstring\<close> returns it.
\<close>

definition plain_listing :: elem where
  "plain_listing =
     Elem (Tag ''ListBucketResult'') [] [] None
       [Elem NonElement [] [] (Some ''generated'') [],
        Elem (Tag ''Name'') [] [] (Some ''bucket'') []]"

definition foreign_listing :: elem where
  "foreign_listing =
     Elem (Tag ''ListBucketResult'') [] [] None
       [Elem (Tag ''{urn:example}Note'') [] [(Some ''ex'', ''urn:example'')] (Some ''n'') []]"

definition injected_listing :: elem where
  "injected_listing =
     Elem (Tag ''ListBucketResult'') [] [(None, XMLNS_S3)] None
       [Elem NonElement [] [] (Some ''generated'') [],
        Elem (Tag ''Name'') [] [] (Some ''bucket'') []]"

definition canonical_listing :: elem where
  "canonical_listing = injected_listing"

text \<open>
  A serializer and a parser that know one document: the bytes \<^verbatim>\<open>doc\<close> stand for the
  serialized form of the tree they are made for.
\<close>

definition one_document_tostring :: "elem \<Rightarrow> string" where
  "one_document_tostring e = ''doc''"

definition one_document_fromstring :: "elem \<Rightarrow> string \<Rightarrow> elem option" where
  "one_document_fromstring e text =
     (if text = ''doc'' then Some (as_parsed Map.empty e) else None)"

definition no_schema :: "string \<Rightarrow> elem \<Rightarrow> xml_error option" where
  "no_schema root_tag e = Some IOError"

section \<open>Header sets: lemmas\<close>

lemma lower_char_idem: "lower_char (lower_char c) = lower_char c"
  by (cases c) (auto simp: lower_char_def)

lemma hkey_idem: "hkey (hkey k) = hkey k"
  by (simp add: hkey_def lower_char_idem)

lemma hget_hset_other: "hkey k \<noteq> hkey k' \<Longrightarrow> hget (hset h k v) k' = hget h k'"
  by (induction h) (auto simp: hget_def hset_def hdel_def hkey_idem)

lemma hget_hset_same: "hget (hset h k v) k = Some v"
  by (simp add: hget_def hset_def hkey_idem)

lemma hcontains_hset_other:
  "hkey k \<noteq> hkey k' \<Longrightarrow> hcontains (hset h k v) k' = hcontains h k'"
  by (simp add: hcontains_def hget_hset_other)

section \<open>PUT: the copy headers, the status and the user metadata\<close>

lemma headers_fold_delete:
  "headers (fold (\<lambda>key r. if startswith key p
                           then r\<lparr>headers := hdel (headers r) key\<rparr> else r) ks resp)
   = filter (\<lambda>(a, v). \<not> (\<exists>key \<in> set ks. startswith key p \<and> hkey a = hkey key))
       (headers resp)"
proof (induction ks arbitrary: resp)
  case Nil
  then show ?case by simp
next
  case (Cons k ks)
  show ?case
    by (simp add: Cons.IH hdel_def) (auto intro!: filter_cong)
qed

lemma status_fold_delete:
  "status (fold (\<lambda>key r. if startswith key p
                          then r\<lparr>headers := hdel (headers r) key\<rparr> else r) ks resp)
   = status resp"
  by (induction ks arbitrary: resp) auto

lemma delete_object_metadata_keys:
  "k \<in> set (hkeys (headers (delete_object_metadata resp)))
   \<Longrightarrow> \<not> startswith k ''x-amz-meta-''"
  unfolding delete_object_metadata_def headers_fold_delete
  by (auto simp: hkeys_def hkey_idem)

lemma timestamp_key_copy_source: "hkey ''X-Timestamp'' \<noteq> hkey ''X-Amz-Copy-Source''"
  by (simp add: hkey_def lower_char_def)

lemma timestamp_key_copy_source_range:
  "hkey ''X-Timestamp'' \<noteq> hkey ''X-Amz-Copy-Source-Range''"
  by (simp add: hkey_def lower_char_def)

text \<open>
  Claim C2. A PUT whose headers hold both \<^verbatim>\<open>X-Amz-Copy-Source\<close> and
  \<^verbatim>\<open>X-Amz-Copy-Source-Range\<close> fails with \<open>InvalidArgument\<close> (\<^verbatim>\<open>Illegal copy header\<close>, with
  the value of the range header). It does so for every backend and it returns the
  backend state it was given: neither the copy-source check nor the write was called.
  The request has only received its \<^verbatim>\<open>X-Timestamp\<close> header.
\<close>

theorem PUT_rejects_copy_source_range:
  assumes "hcontains (req_headers req) ''X-Amz-Copy-Source''"
    and "hget (req_headers req) ''X-Amz-Copy-Source-Range'' = Some v"
  shows "PUT app ts req s =
           (Inl (InvalidArgument ''x-amz-copy-source-range'' v ''Illegal copy header''),
            req\<lparr>req_headers := hset (req_headers req) ''X-Timestamp'' (internal ts)\<rparr>, s)"
  using assms
  by (simp add: PUT_def Let_def hcontains_hset_other hget_hset_other hcontains_def
      timestamp_key_copy_source timestamp_key_copy_source_range)

text \<open>
  On the counting backend the call counter is still 0 after the rejected request.
\<close>

theorem PUT_rejects_copy_source_range_witness:
  "hcontains (req_headers copy_range_request) ''X-Amz-Copy-Source'' \<and>
   hget (req_headers copy_range_request) ''X-Amz-Copy-Source-Range'' = Some ''bytes=0-9'' \<and>
   fst (PUT counting_backend sample_timestamp copy_range_request 0) =
     Inl (InvalidArgument ''x-amz-copy-source-range'' ''bytes=0-9'' ''Illegal copy header'') \<and>
   snd (snd (PUT counting_backend sample_timestamp copy_range_request 0)) = 0"
proof -
  have a: "hcontains (req_headers copy_range_request) ''X-Amz-Copy-Source''"
    by code_simp
  have b: "hget (req_headers copy_range_request) ''X-Amz-Copy-Source-Range'' = Some ''bytes=0-9''"
    by code_simp
  show ?thesis
    using a b PUT_rejects_copy_source_range [OF a b, of counting_backend sample_timestamp 0]
    by simp
qed

text \<open>
  Claim C3. A PUT with an \<^verbatim>\<open>X-Amz-Copy-Source\<close> header (and no range header, which is
  rejected before the backend is reached) whose copy-source check and backend call both
  succeed returns a response with status 200, whatever status the backend gave, and with
  no header name that starts with \<^verbatim>\<open>x-amz-meta-\<close>, whatever headers the backend and
  the copy-result body builder left in the response.
\<close>

theorem PUT_copy_response:
  assumes copy: "hcontains (req_headers req) ''X-Amz-Copy-Source''"
    and norange: "\<not> hcontains (req_headers req) ''X-Amz-Copy-Source-Range''"
    and req1: "req1 = req\<lparr>req_headers := hset (req_headers req) ''X-Timestamp'' (internal ts)\<rparr>"
    and chk: "check_copy_source app req1 s = (Inr u, s1)"
    and resp: "get_response app req1 None s1 = (Inr resp, s2)"
  shows "\<exists>resp'. PUT app ts req s = (Inr resp', req1, s2) \<and> status resp' = 200 \<and>
           (\<forall>k \<in> set (hkeys (headers resp')). \<not> startswith k ''x-amz-meta-'')"
  using assms
  by (simp add: PUT_def Let_def hcontains_hset_other timestamp_key_copy_source
      timestamp_key_copy_source_range HTTP_OK_def delete_object_metadata_keys)

theorem PUT_copy_response_witness:
  "status sample_response = 201 \<and>
   hcontains (headers sample_response) ''x-amz-meta-color'' \<and>
   (\<exists>resp'. fst (PUT counting_backend sample_timestamp copy_request 0) = Inr resp' \<and>
      status resp' = 200 \<and>
      (\<forall>k \<in> set (hkeys (headers resp')). \<not> startswith k ''x-amz-meta-''))"
proof -
  let ?req1 = "copy_request\<lparr>req_headers :=
                 hset (req_headers copy_request) ''X-Timestamp'' (internal sample_timestamp)\<rparr>"
  have a: "hcontains (req_headers copy_request) ''X-Amz-Copy-Source''"
    by code_simp
  have b: "\<not> hcontains (req_headers copy_request) ''X-Amz-Copy-Source-Range''"
    by code_simp
  have c: "check_copy_source counting_backend ?req1 0 = (Inr (), 1)"
    by (simp add: counting_backend_def)
  have d: "get_response counting_backend ?req1 None 1 = (Inr sample_response, 2)"
    by code_simp
  have e: "status sample_response = 201"
    "hcontains (headers sample_response) ''x-amz-meta-color''"
    by code_simp+
  show ?thesis
    using e PUT_copy_response [OF a b refl c d] by auto
qed

text \<open>
  Claim C10. Every PUT that gets past the header check and whose copy-source check and
  backend call succeed returns status 200, whatever status the backend gave; a plain
  PUT (no \<^verbatim>\<open>X-Amz-Copy-Source\<close> header) returns the backend's response with nothing but
  the status changed.
\<close>

theorem PUT_status_always_OK:
  assumes accepted: "\<not> (hcontains (req_headers req) ''X-Amz-Copy-Source'' \<and>
                        hcontains (req_headers req) ''X-Amz-Copy-Source-Range'')"
    and req1: "req1 = req\<lparr>req_headers := hset (req_headers req) ''X-Timestamp'' (internal ts)\<rparr>"
    and chk: "check_copy_source app req1 s = (Inr u, s1)"
    and resp: "get_response app req1 None s1 = (Inr resp, s2)"
  shows "\<exists>resp'. PUT app ts req s = (Inr resp', req1, s2) \<and> status resp' = 200 \<and>
           (\<not> hcontains (req_headers req) ''X-Amz-Copy-Source''
            \<longrightarrow> resp' = resp\<lparr>status := 200\<rparr>)"
  using assms
  by (auto simp add: PUT_def Let_def hcontains_hset_other timestamp_key_copy_source
      timestamp_key_copy_source_range HTTP_OK_def delete_object_metadata_def
      status_fold_delete)

text \<open>The backend answers the plain PUT with 201; the handler returns 200.\<close>

theorem PUT_status_always_OK_witness:
  "\<not> hcontains (req_headers sample_request) ''X-Amz-Copy-Source'' \<and>
   status sample_response = 201 \<and>
   fst (PUT counting_backend sample_timestamp sample_request 0) =
     Inr (sample_response\<lparr>status := 200\<rparr>)"
proof -
  let ?req1 = "sample_request\<lparr>req_headers :=
                 hset (req_headers sample_request) ''X-Timestamp'' (internal sample_timestamp)\<rparr>"
  have a: "\<not> hcontains (req_headers sample_request) ''X-Amz-Copy-Source''"
    by code_simp
  then have a': "\<not> (hcontains (req_headers sample_request) ''X-Amz-Copy-Source'' \<and>
                    hcontains (req_headers sample_request) ''X-Amz-Copy-Source-Range'')"
    by simp
  have c: "check_copy_source counting_backend ?req1 0 = (Inr (), 1)"
    by (simp add: counting_backend_def)
  have d: "get_response counting_backend ?req1 None 1 = (Inr sample_response, 2)"
    by code_simp
  have e: "status sample_response = 201"
    by code_simp
  show ?thesis
    using a e PUT_status_always_OK [OF a' refl c d] by auto
qed

section \<open>DELETE: the bulk-delete report\<close>

lemma drain_all: "drain chunks = (chunks, [])"
  by (induction chunks) auto

text \<open>
  Claim C4, as amended. When a bulk-delete query was generated (a non-empty dictionary)
  and the backend answers it with status 200 and a streamed report, DELETE reads every
  chunk of the report, in order, and leaves none in the producer; it returns status 204
  with an empty body and without the producer. The request went to the backend without
  its \<^verbatim>\<open>Content-Type\<close>.
\<close>

theorem DELETE_drains_bulk_report:
  assumes q: "gen_multipart_manifest_delete_query app req s = (Inr (Some kvs), s1)"
    and ne: "kvs \<noteq> []"
    and req1: "req1 = req\<lparr>req_headers := hdel (req_headers req) ''Content-Type''\<rparr>"
    and r: "get_response app req1 (Some kvs) s1 = (Inr resp, s2)"
    and ok: "status resp = 200"
    and it: "app_iter resp = Some chunks"
  shows "\<exists>resp'. DELETE app req s = (Inr resp', req1, s2, (chunks, [])) \<and>
           status resp' = 204 \<and> body resp' = [] \<and> app_iter resp' = None"
  using assms
  by (simp add: DELETE_def Let_def truthy_query_def HTTP_OK_def HTTP_NO_CONTENT_def
      set_body_def drain_all)

theorem DELETE_drains_bulk_report_witness:
  "status bulk_delete_report = 200 \<and>
   app_iter bulk_delete_report = Some [''Number Deleted: 2'', ''Errors:''] \<and>
   snd (snd (snd (DELETE counting_backend sample_request 0))) =
     ([''Number Deleted: 2'', ''Errors:''], []) \<and>
   (\<exists>resp'. fst (DELETE counting_backend sample_request 0) = Inr resp' \<and>
      status resp' = 204 \<and> body resp' = [] \<and> app_iter resp' = None)"
proof -
  let ?req1 = "sample_request\<lparr>req_headers := hdel (req_headers sample_request) ''Content-Type''\<rparr>"
  have q: "gen_multipart_manifest_delete_query counting_backend sample_request 0 =
             (Inr (Some [(''multipart-manifest'', ''delete'')]), 1)"
    by (simp add: counting_backend_def)
  have ne: "[(''multipart-manifest'', ''delete'')] \<noteq> []"
    by simp
  have r: "get_response counting_backend ?req1 (Some [(''multipart-manifest'', ''delete'')]) 1 =
             (Inr bulk_delete_report, 2)"
    by (simp add: counting_backend_def)
  have ok: "status bulk_delete_report = 200"
    by (simp add: bulk_delete_report_def)
  have it: "app_iter bulk_delete_report = Some [''Number Deleted: 2'', ''Errors:'']"
    by (simp add: bulk_delete_report_def)
  show ?thesis
    using ok it DELETE_drains_bulk_report [OF q ne refl r ok it] by auto
qed

text \<open>
  Claim C4 as stated fails for a backend that reports success with another status than
  200: the query was generated, the backend answers 202 with a streamed report, and
  DELETE returns that answer as it is, without having read a chunk of the report.
\<close>

theorem DELETE_accepted_counterexample:
  "gen_multipart_manifest_delete_query accepting_backend sample_request 0 =
     (Inr (Some [(''multipart-manifest'', ''delete'')]), 1) \<and>
   status accepted_report = 202 \<and>
   app_iter accepted_report = Some [''Number Deleted: 2'', ''Errors:''] \<and>
   fst (DELETE accepting_backend sample_request 0) = Inr accepted_report \<and>
   snd (snd (snd (DELETE accepting_backend sample_request 0))) =
     ([], [''Number Deleted: 2'', ''Errors:''])"
  by code_simp


section \<open>HEAD: the range emulation\<close>

lemma GETorHEAD_req_headers:
  "GETorHEAD app req s = (res, req', s') \<Longrightarrow> req_headers req' = req_headers req"
  by (auto simp: GETorHEAD_def Let_def split: prod.splits sum.splits error.splits if_splits)

text \<open>
  Claim C5. A HEAD request with a \<^verbatim>\<open>Range\<close> header, whose underlying response has the
  content length \<open>L\<close> and whose range specification resolves to the single interval
  \<open>[st, en)\<close>, returns that response with status 206, \<^verbatim>\<open>Content-Range\<close> set to
  \<^verbatim>\<open>bytes st-(en-1)/L\<close> and \<^verbatim>\<open>Content-Length\<close> set to \<open>en - st\<close>.
\<close>

theorem HEAD_single_range:
  assumes g: "GETorHEAD app req s = (Inr resp, req', s')"
    and rh: "hget (req_headers req) ''Range'' = Some r"
    and cl: "hget (headers resp) ''Content-Length'' = Some c"
    and lg: "long lib c = Some L"
    and rp: "Range_of lib r = Some spec"
    and rs: "ranges_for_length lib spec L = Some [(st, en)]"
  shows "\<exists>resp'. HEAD lib app req s = (Inr resp', req', s') \<and>
           status resp' = 206 \<and>
           hget (headers resp') ''Content-Range'' =
             Some (''bytes '' @ str_int st @ ''-'' @ str_int (en - 1) @ ''/'' @ str_int L) \<and>
           hget (headers resp') ''Content-Length'' = Some (str_int (en - st))"
proof -
  have h: "req_headers req' = req_headers req"
    using g by (rule GETorHEAD_req_headers)
  have k: "hkey ''Content-Length'' \<noteq> hkey ''Content-Range''"
    by code_simp
  have "hkey ''range'' = hkey ''Range''"
    by code_simp
  then have r': "hget (req_headers req) ''range'' = Some r"
    using rh by (simp add: hget_def)
  show ?thesis
    using g cl lg rp rs r' h k
    by (simp add: HEAD_def hcontains_def gen_head_range_resp_def HTTP_PARTIAL_CONTENT_def
        content_range_header_value_def hget_hset_same hget_hset_other)
qed


theorem HEAD_single_range_witness:
  "hget (req_headers (head_request ''bytes=0-9'')) ''Range'' = Some ''bytes=0-9'' \<and>
   (\<exists>resp'. fst (HEAD sample_swob counting_backend (head_request ''bytes=0-9'') 0) = Inr resp' \<and>
      status resp' = 206 \<and>
      hget (headers resp') ''Content-Range'' = Some ''bytes 0-9/100'' \<and>
      hget (headers resp') ''Content-Length'' = Some ''10'')"
proof -
  let ?req = "head_request ''bytes=0-9''"
  have g: "GETorHEAD counting_backend ?req 0 = (Inr (set_app_iter_None sample_response), ?req, 1)"
    by code_simp
  have rh: "hget (req_headers ?req) ''Range'' = Some ''bytes=0-9''"
    by code_simp
  have cl: "hget (headers (set_app_iter_None sample_response)) ''Content-Length'' = Some ''100''"
    by code_simp
  have lg: "long sample_swob ''100'' = Some 100"
    by (simp add: sample_swob_def)
  have rp: "Range_of sample_swob ''bytes=0-9'' = Some ''0-9''"
    by code_simp
  have rs: "ranges_for_length sample_swob ''0-9'' 100 = Some [(0, 10)]"
    by (simp add: sample_swob_def)
  have st: "''bytes '' @ str_int 0 @ ''-'' @ str_int (10 - 1) @ ''/'' @ str_int 100 = ''bytes 0-9/100''"
    "str_int (10 - 0) = ''10''"
    by code_simp+
  show ?thesis
    using rh st HEAD_single_range [OF g rh cl lg rp rs] by auto
qed

text \<open>
  Claim C6. A HEAD request whose \<^verbatim>\<open>Range\<close> header parses and resolves to no interval
  against the content length of the underlying response fails with \<open>InvalidRange\<close>.
\<close>

theorem HEAD_unsatisfiable_range:
  assumes g: "GETorHEAD app req s = (Inr resp, req', s')"
    and rh: "hget (req_headers req) ''Range'' = Some r"
    and cl: "hget (headers resp) ''Content-Length'' = Some c"
    and lg: "long lib c = Some L"
    and rp: "Range_of lib r = Some spec"
    and rs: "ranges_for_length lib spec L = Some []"
  shows "HEAD lib app req s = (Inl InvalidRange, req', s')"
proof -
  have h: "req_headers req' = req_headers req"
    using g by (rule GETorHEAD_req_headers)
  have "hkey ''range'' = hkey ''Range''"
    by code_simp
  then have r': "hget (req_headers req) ''range'' = Some r"
    using rh by (simp add: hget_def)
  show ?thesis
    using g cl lg rp rs r' h
    by (simp add: HEAD_def hcontains_def gen_head_range_resp_def)
qed

theorem HEAD_unsatisfiable_range_witness:
  "hget (req_headers (head_request ''bytes=200-'')) ''Range'' = Some ''bytes=200-'' \<and>
   ranges_for_length sample_swob ''200-'' 100 = Some [] \<and>
   fst (HEAD sample_swob counting_backend (head_request ''bytes=200-'') 0) = Inl InvalidRange"
proof -
  let ?req = "head_request ''bytes=200-''"
  have g: "GETorHEAD counting_backend ?req 0 = (Inr (set_app_iter_None sample_response), ?req, 1)"
    by code_simp
  have rh: "hget (req_headers ?req) ''Range'' = Some ''bytes=200-''"
    by code_simp
  have cl: "hget (headers (set_app_iter_None sample_response)) ''Content-Length'' = Some ''100''"
    by code_simp
  have lg: "long sample_swob ''100'' = Some 100"
    by (simp add: sample_swob_def)
  have rp: "Range_of sample_swob ''bytes=200-'' = Some ''200-''"
    by code_simp
  have rs: "ranges_for_length sample_swob ''200-'' 100 = Some []"
    by (simp add: sample_swob_def)
  show ?thesis
    using rh rs HEAD_unsatisfiable_range [OF g rh cl lg rp rs] by simp
qed

text \<open>
  Claim C7, as amended. The content length of the underlying response is read before
  the \<^verbatim>\<open>Range\<close> header is parsed. When it is there and converts to an integer, a
  \<^verbatim>\<open>Range\<close> header that does not parse, or that resolves to two or more intervals, leaves
  the response as \<open>GETorHEAD\<close> returned it, and no error is raised.
\<close>

theorem HEAD_range_passthrough:
  assumes g: "GETorHEAD app req s = (Inr resp, req', s')"
    and rh: "hget (req_headers req) ''Range'' = Some r"
    and cl: "hget (headers resp) ''Content-Length'' = Some c"
    and lg: "long lib c = Some L"
    and rg: "Range_of lib r = None \<or>
             (\<exists>spec rs. Range_of lib r = Some spec \<and>
                ranges_for_length lib spec L = Some rs \<and> 2 \<le> length rs)"
  shows "HEAD lib app req s = (Inr resp, req', s')"
proof -
  have h: "req_headers req' = req_headers req"
    using g by (rule GETorHEAD_req_headers)
  have "hkey ''range'' = hkey ''Range''"
    by code_simp
  then have r': "hget (req_headers req) ''range'' = Some r"
    using rh by (simp add: hget_def)
  have "gen_head_range_resp lib r resp = Inr resp"
    using cl lg rg
    by (auto simp: gen_head_range_resp_def split: list.splits)
  then show ?thesis
    using g r' h by (simp add: HEAD_def hcontains_def)
qed

theorem HEAD_range_passthrough_witness:
  "fst (HEAD sample_swob counting_backend (head_request ''garbage'') 0) =
     Inr (set_app_iter_None sample_response) \<and>
   fst (HEAD sample_swob counting_backend (head_request ''bytes=0-9,20-29'') 0) =
     Inr (set_app_iter_None sample_response)"
proof -
  have passthrough: "fst (HEAD sample_swob counting_backend (head_request r) 0) =
                       Inr (set_app_iter_None sample_response)"
    if rg: "Range_of sample_swob r = None \<or>
            (\<exists>spec rs. Range_of sample_swob r = Some spec \<and>
               ranges_for_length sample_swob spec 100 = Some rs \<and> 2 \<le> length rs)"
    for r
  proof -
    let ?req = "head_request r"
    have g: "GETorHEAD counting_backend ?req 0 =
               (Inr (set_app_iter_None sample_response), ?req, 1)"
      by (simp add: GETorHEAD_def wants_version_def head_request_def sample_request_def
          counting_backend_def startswith_def shape_response_def Let_def response_overrides_def)
         code_simp
    have rh: "hget (req_headers ?req) ''Range'' = Some r"
      by (simp add: head_request_def hget_def)
    have cl: "hget (headers (set_app_iter_None sample_response)) ''Content-Length'' = Some ''100''"
      by code_simp
    have lg: "long sample_swob ''100'' = Some 100"
      by (simp add: sample_swob_def)
    show ?thesis
      using HEAD_range_passthrough [OF g rh cl lg rg] by simp
  qed
  have a: "Range_of sample_swob ''garbage'' = None"
    by code_simp
  have b: "Range_of sample_swob ''bytes=0-9,20-29'' = Some ''0-9,20-29''"
    "ranges_for_length sample_swob ''0-9,20-29'' 100 = Some [(0, 10), (20, 30)]"
    by code_simp+
  have "fst (HEAD sample_swob counting_backend (head_request ''bytes=0-9,20-29'') 0) =
          Inr (set_app_iter_None sample_response)"
    by (rule passthrough) (use b in auto)
  then show ?thesis
    using passthrough [of "''garbage''"] a by simp
qed

text \<open>
  Claim C7 as stated fails where the underlying response has no content length: the
  \<^verbatim>\<open>Range\<close> header does not parse, and HEAD raises \<^verbatim>\<open>TypeError\<close> instead of returning
  the response.
\<close>

theorem HEAD_unparsable_range_counterexample:
  "hget (req_headers nolen_head_request) ''Range'' = Some ''garbage'' \<and>
   Range_of sample_swob ''garbage'' = None \<and>
   fst (GETorHEAD counting_backend nolen_head_request 0) =
     Inr (set_app_iter_None (sample_response\<lparr>headers := [(''ETag'', ''abc'')]\<rparr>)) \<and>
   fst (HEAD sample_swob counting_backend nolen_head_request 0) = Inl TypeError"
  by code_simp

section \<open>GET and HEAD: the version fallback\<close>














section \<open>tostring: selective url encoding\<close>

lemma delete_no_key: "(k, b) \<notin> set (AList.delete k al)"
  by (simp add: AList.delete_eq)

lemma url_encoded_node_step:
  "urlencode_node tg at tx = (at1, tx1)
   \<Longrightarrow> url_encoded_node (Elem tg at ns tx cs) (Elem tg at1 ns1 tx1 cs1)"
  by (auto simp: urlencode_node_def url_encoded_node_def delete_no_key
      split: option.splits if_splits)

lemma list_all2_concat_map:
  "(\<And>x. x \<in> set xs \<Longrightarrow> list_all2 R (f x) (g x))
   \<Longrightarrow> list_all2 R (concat (map f xs)) (concat (map g xs))"
  by (induction xs) (auto intro: list_all2_appendI)

lemma urlencode_tree_nodes:
  "list_all2 url_encoded_node (iter e) (iter (urlencode_tree e))"
proof (induction e)
  case (Elem tg at ns tx cs)
  obtain at1 tx1 where n: "urlencode_node tg at tx = (at1, tx1)"
    by (cases "urlencode_node tg at tx")
  have "list_all2 url_encoded_node (concat (map iter cs))
          (concat (map (\<lambda>c. iter (urlencode_tree c)) cs))"
    by (rule list_all2_concat_map) (rule Elem.IH)
  then show ?case
    using n by (simp add: url_encoded_node_step comp_def)
qed

lemma urlencode_root_nodes:
  "list_all2 url_encoded_node (iter (Elem tg at ns tx cs))
     (iter (urlencode_tree (Elem tg at ns1 tx cs)))"
proof -
  obtain at1 tx1 where n: "urlencode_node tg at tx = (at1, tx1)"
    by (cases "urlencode_node tg at tx")
  have "list_all2 url_encoded_node (concat (map iter cs))
          (concat (map (\<lambda>c. iter (urlencode_tree c)) cs))"
    by (rule list_all2_concat_map) (rule urlencode_tree_nodes)
  then show ?thesis
    using n by (simp add: url_encoded_node_step comp_def)
qed

text \<open>
  Claim C8. When \<open>tostring\<close> with encoding type \<^verbatim>\<open>url\<close> returns bytes, they are the
  serialization of a tree whose nodes, in document order, stand in the relation
  \<open>url_encoded_node\<close> to the nodes of the tree given, with or without the injection of
  the S3 namespace: under the tags of the exemption list the text is untouched; under
  every other tag a text is percent-encoded, except on a node with the marker
  \<^verbatim>\<open>urlencoded="True"\<close>, whose text stays as it is and whose marker is removed.
\<close>

theorem tostring_url_encoding:
  assumes "tostring lxml_tostring tree (Some ''url'') use_s3ns = Inr bytes"
  shows "\<exists>tree'. tostring_tree tree (Some ''url'') use_s3ns = Inr tree' \<and>
           bytes = lxml_tostring tree' \<and>
           list_all2 url_encoded_node (iter tree) (iter tree')"
proof (cases tree)
  case (Elem tg at ns tx cs)
  show ?thesis
  proof (cases "use_s3ns")
    case False
    then show ?thesis
      using assms urlencode_tree_nodes [of tree]
      by (auto simp: tostring_def tostring_tree_def)
  next
    case True
    show ?thesis
    proof (cases tg)
      case NonElement
      then show ?thesis
        using assms Elem True by (simp add: tostring_def tostring_tree_def)
    next
      case (Tag name)
      then show ?thesis
        using assms Elem True
          urlencode_root_nodes [of "Tag name" at ns tx cs "AList.update None XMLNS_S3 ns"]
        by (auto simp: tostring_def tostring_tree_def)
    qed
  qed
qed

theorem tostring_url_encoding_witness:
  "tostring_tree sample_listing (Some ''url'') True = Inr encoded_listing \<and>
   list_all2 url_encoded_node (iter sample_listing) (iter encoded_listing)"
proof -
  have t: "tostring_tree sample_listing (Some ''url'') True = Inr encoded_listing"
    by code_simp
  then have "tostring (\<lambda>e. []) sample_listing (Some ''url'') True = Inr []"
    by (simp add: tostring_def)
  from tostring_url_encoding [OF this] t show ?thesis
    by auto
qed


section \<open>cleanup_namespaces\<close>

lemma startswith_append: "startswith s p \<Longrightarrow> s = p @ drop (length p) s"
  by (metis append_take_drop_id startswith_def)

lemma remove_ns_local: "\<not> namespaced tg \<Longrightarrow> remove_ns tg ns = tg"
  by (cases tg) (auto simp: remove_ns_def namespaced_def startswith_def)

lemma remove_ns_tag_in: "tag_in ns tg \<Longrightarrow> \<not> namespaced (remove_ns tg ns)"
  by (simp add: tag_in_def remove_ns_def)

lemma closing_brace_unique:
  assumes "a @ CHR ''}'' # r = b @ CHR ''}'' # q"
    and "CHR ''}'' \<notin> set a" and "CHR ''}'' \<notin> set b"
  shows "a = b"
proof -
  have "takeWhile (\<lambda>c. c \<noteq> CHR ''}'') (a @ CHR ''}'' # r) = a"
    using assms(2) by (auto simp: takeWhile_tail)
  moreover have "takeWhile (\<lambda>c. c \<noteq> CHR ''}'') (b @ CHR ''}'' # q) = b"
    using assms(3) by (auto simp: takeWhile_tail)
  ultimately show ?thesis
    using assms(1) by simp
qed

lemma same_namespace:
  assumes "startswith tg (''{'' @ a @ ''}'')" and "startswith tg (''{'' @ b @ ''}'')"
    and "CHR ''}'' \<notin> set a" and "CHR ''}'' \<notin> set b"
  shows "a = b"
proof -
  from startswith_append [OF assms(1)] startswith_append [OF assms(2)]
  have "(''{'' @ a @ ''}'') @ drop (length (''{'' @ a @ ''}'')) tg =
        (''{'' @ b @ ''}'') @ drop (length (''{'' @ b @ ''}'')) tg"
    by simp
  then have "a @ CHR ''}'' # drop (length (''{'' @ a @ ''}'')) tg =
             b @ CHR ''}'' # drop (length (''{'' @ b @ ''}'')) tg"
    by simp
  then show ?thesis
    using assms(3,4) by (rule closing_brace_unique)
qed

lemma XMLNS_S3_no_brace: "CHR ''}'' \<notin> set XMLNS_S3"
  by code_simp

lemma cleaned_tag_local:
  assumes "\<not> namespaced tg \<or> tag_in XMLNS_S3 tg \<or>
           (case dflt of Some d \<Rightarrow> CHR ''}'' \<notin> set d \<and> tag_in d tg | None \<Rightarrow> False)"
  shows "\<not> namespaced (case dflt of Some d \<Rightarrow> remove_ns (remove_ns tg XMLNS_S3) d
                         | None \<Rightarrow> remove_ns tg XMLNS_S3)"
proof -
  have s3: "\<not> namespaced (remove_ns tg XMLNS_S3)"
    if "\<not> namespaced tg \<or> tag_in XMLNS_S3 tg"
    using that by (auto simp: remove_ns_local remove_ns_tag_in)
  show ?thesis
  proof (cases "\<not> namespaced tg \<or> tag_in XMLNS_S3 tg")
    case True
    then show ?thesis
      by (auto simp: s3 remove_ns_local split: option.splits)
  next
    case False
    with assms obtain d where d: "dflt = Some d" "CHR ''}'' \<notin> set d" "tag_in d tg"
      by (auto split: option.splits)
    show ?thesis
    proof (cases "startswith tg (''{'' @ XMLNS_S3 @ ''}'')")
      case True
      from d(3) have "startswith tg (''{'' @ d @ ''}'')"
        by (simp add: tag_in_def)
      then have "d = XMLNS_S3"
        using True d(2) XMLNS_S3_no_brace by (rule same_namespace)
      then show ?thesis
        using False d(3) by simp
    next
      case False
      then have "remove_ns tg XMLNS_S3 = tg"
        by (simp add: remove_ns_def)
      then show ?thesis
        using d by (simp add: remove_ns_tag_in)
    qed
  qed
qed

lemma cleanup_namespaces_in_known:
  "known_namespaces inherited e \<Longrightarrow> no_namespaced_tags (cleanup_namespaces_in inherited e)"
proof (induction e arbitrary: inherited)
  case (Elem tg at ns tx cs)
  show ?case
  proof (cases tg)
    case NonElement
    then show ?thesis by simp
  next
    case (Tag name)
    have kids: "list_all no_namespaced_tags
                  (map (cleanup_namespaces_in (inherited ++ map_of ns)) cs)"
      using Elem.prems Tag Elem.IH by (auto simp: list_all_iff)
    have "\<not> namespaced (case (inherited ++ map_of ns) None of
                           Some d \<Rightarrow> remove_ns (remove_ns name XMLNS_S3) d
                         | None \<Rightarrow> remove_ns name XMLNS_S3)"
      using Elem.prems Tag by (intro cleaned_tag_local) simp
    then show ?thesis
      using Tag kids by (simp add: Let_def)
  qed
qed

lemma tag_in_qualified:
  "\<not> namespaced tg \<Longrightarrow> tag_in ns (CHR ''{'' # ns @ CHR ''}'' # tg)"
  by (simp add: tag_in_def startswith_def)

lemma as_parsed_known:
  "known_tags inherited e \<Longrightarrow> known_namespaces inherited (as_parsed inherited e)"
proof (induction e arbitrary: inherited)
  case (Elem tg at ns tx cs)
  show ?case
  proof (cases tg)
    case NonElement
    then show ?thesis by simp
  next
    case (Tag name)
    have kids: "list_all (known_namespaces (inherited ++ map_of ns))
                  (map (as_parsed (inherited ++ map_of ns)) cs)"
      using Elem.prems Tag Elem.IH by (auto simp: list_all_iff)
    show ?thesis
      using Elem.prems Tag kids
      by (auto simp: Let_def tag_in_qualified split: option.splits)
  qed
qed

lemma canonical_node_refl: "canonical_node e e"
  by (simp add: canonical_node_def)

lemma cleanup_canonical_nodes:
  "list_all2 canonical_node (iter e) (iter (cleanup_namespaces_in inherited e))"
proof (induction e arbitrary: inherited)
  case (Elem tg at ns tx cs)
  show ?case
  proof (cases tg)
    case NonElement
    then show ?thesis
      by (simp add: list_all2_refl canonical_node_refl)
  next
    case (Tag name)
    have "list_all2 canonical_node (concat (map iter cs))
            (concat (map (\<lambda>c. iter (cleanup_namespaces_in (inherited ++ map_of ns) c)) cs))"
      by (rule list_all2_concat_map) (rule Elem.IH)
    moreover have "canonical_node (Elem (Tag name) at ns tx cs) (Elem (Tag name') at ns tx cs')"
      for name' cs'
      by (simp add: canonical_node_def)
    ultimately show ?thesis
      using Tag by (simp add: Let_def comp_def)
  qed
qed

text \<open>
  Claim C9, as amended. A tree is serialized with the S3 namespace injected; every
  element of the serialized tree has a tag without a namespace, or in the S3 namespace,
  or in the default namespace in scope at the element, and no default namespace has a
  closing brace in its name (\<open>known_tags\<close>). The parser returns, for the bytes, the
  tree that the rules of XML namespaces make of them (\<open>as_parsed\<close>). Then
  \<open>fromstring\<close> returns a tree in which no tag of an element, at any depth, has a
  namespace; node by node, in document order, a node that is not an element is the node
  the parser gave, and an element is an element with the attributes, declarations and
  text the parser gave.
\<close>

theorem roundtrip_strips_namespaces:
  assumes inj: "tostring_tree tree encoding_type True = Inr serialized"
    and bytes: "bytes = lxml_tostring serialized"
    and parse: "lxml_fromstring bytes = Some (as_parsed Map.empty serialized)"
    and known: "known_tags Map.empty serialized"
  shows "tostring lxml_tostring tree encoding_type True = Inr bytes \<and>
         (\<exists>canon. fromstring lxml_fromstring assert_valid bytes None = Inr canon \<and>
            no_namespaced_tags canon \<and>
            list_all2 canonical_node (iter (as_parsed Map.empty serialized)) (iter canon))"
proof -
  have "no_namespaced_tags (cleanup_namespaces (as_parsed Map.empty serialized))"
    using known by (simp add: cleanup_namespaces_def as_parsed_known cleanup_namespaces_in_known)
  moreover have "list_all2 canonical_node (iter (as_parsed Map.empty serialized))
                   (iter (cleanup_namespaces (as_parsed Map.empty serialized)))"
    by (simp add: cleanup_namespaces_def cleanup_canonical_nodes)
  ultimately show ?thesis
    using inj bytes parse by (simp add: tostring_def fromstring_def Let_def)
qed

theorem roundtrip_strips_namespaces_witness:
  "tostring_tree plain_listing None True = Inr injected_listing \<and>
   as_parsed Map.empty injected_listing = parsed_listing \<and>
   fromstring (one_document_fromstring injected_listing) no_schema
     (one_document_tostring injected_listing) None = Inr canonical_listing \<and>
   no_namespaced_tags canonical_listing \<and>
   list_all2 canonical_node (iter parsed_listing) (iter canonical_listing)"
proof -
  have inj: "tostring_tree plain_listing None True = Inr injected_listing"
    by code_simp
  have bytes: "one_document_tostring injected_listing = one_document_tostring injected_listing"
    by simp
  have parse: "one_document_fromstring injected_listing (one_document_tostring injected_listing) =
                 Some (as_parsed Map.empty injected_listing)"
    by (simp add: one_document_fromstring_def one_document_tostring_def)
  have known: "known_tags Map.empty injected_listing"
    by (simp add: injected_listing_def XMLNS_S3_def namespaced_def startswith_def)
  have p: "as_parsed Map.empty injected_listing = parsed_listing"
    by (simp add: injected_listing_def parsed_listing_def XMLNS_S3_def namespaced_def
        startswith_def Let_def)
  have c: "cleanup_namespaces parsed_listing = canonical_listing"
    by (simp add: canonical_listing_def injected_listing_def parsed_listing_def
        cleanup_namespaces_def XMLNS_S3_def remove_ns_def startswith_def Let_def)
  have f: "fromstring (one_document_fromstring injected_listing) no_schema
             (one_document_tostring injected_listing) None = Inr canonical_listing"
    using parse p c by (simp add: fromstring_def Let_def)
  show ?thesis
    using roundtrip_strips_namespaces
            [where lxml_tostring = one_document_tostring
               and bytes = "one_document_tostring injected_listing"
               and lxml_fromstring = "one_document_fromstring injected_listing"
               and assert_valid = no_schema,
             OF inj bytes parse known]
          inj p f
    by auto
qed

text \<open>
  Claim C9 as stated fails for a tree with an element in a namespace that is declared
  with a prefix: serialized with the S3 namespace injected, parsed and canonicalized,
  that element still has its namespace in its tag.
\<close>

theorem roundtrip_foreign_namespace_counterexample:
  "tostring_tree foreign_listing None True =
     Inr (Elem (Tag ''ListBucketResult'') [] [(None, XMLNS_S3)] None
            [Elem (Tag ''{urn:example}Note'') [] [(Some ''ex'', ''urn:example'')] (Some ''n'') []]) \<and>
   as_parsed Map.empty
     (Elem (Tag ''ListBucketResult'') [] [(None, XMLNS_S3)] None
        [Elem (Tag ''{urn:example}Note'') [] [(Some ''ex'', ''urn:example'')] (Some ''n'') []]) =
     parsed_foreign \<and>
   fromstring (\<lambda>text. Some parsed_foreign) no_schema ''doc'' None =
     Inr (Elem (Tag ''ListBucketResult'') [] [(None, XMLNS_S3)] None
            [Elem (Tag ''{urn:example}Note'') [] [(Some ''ex'', ''urn:example'')] (Some ''n'') []]) \<and>
   \<not> no_namespaced_tags
        (Elem (Tag ''ListBucketResult'') [] [(None, XMLNS_S3)] None
           [Elem (Tag ''{urn:example}Note'') [] [(Some ''ex'', ''urn:example'')] (Some ''n'') []])"
  by (simp add: foreign_listing_def parsed_foreign_def tostring_tree_def fromstring_def
      cleanup_namespaces_def XMLNS_S3_def remove_ns_def startswith_def Let_def namespaced_def)


end
